theory Spec2Isabelle
  imports Complex_Main
begin

section \<open>JavaScript values carried by request bodies and socket payloads\<close>

text \<open>
  Request bodies and socket payloads arrive JSON-decoded and untyped (\<^verbatim>\<open>req.body\<close> and
  \<^verbatim>\<open>data\<close> are \<^verbatim>\<open>any\<close>). A field that is absent reads as \<open>Undefined\<close>. Objects and arrays
  are compared by reference, so \<open>Object\<close> carries the reference only. \<^verbatim>\<open>NaN\<close> has no JSON
  encoding and does not occur; on the remaining values \<^verbatim>\<open>===\<close> and the key comparison of
  \<^verbatim>\<open>Map\<close> both coincide with equality.
\<close>

datatype jsvalue =
    Undefined
  | Null
  | Boolean bool
  | Number rat
  | String string
  | Object nat

text \<open>The truthiness test behind \<^verbatim>\<open>if (x)\<close>, \<^verbatim>\<open>!x\<close> and \<^verbatim>\<open>x || y\<close>.\<close>

fun truthy :: "jsvalue \<Rightarrow> bool" where
  "truthy Undefined = False"
| "truthy Null = False"
| "truthy (Boolean b) = b"
| "truthy (Number n) = (n \<noteq> 0)"
| "truthy (String s) = (s \<noteq> [])"
| "truthy (Object r) = True"

text \<open>\<^verbatim>\<open>a || b\<close>\<close>

definition or_else :: "jsvalue \<Rightarrow> jsvalue \<Rightarrow> jsvalue" where
  "or_else a b = (if truthy a then a else b)"

text \<open>\<^verbatim>\<open>a === b\<close>\<close>

definition strict_equals :: "jsvalue \<Rightarrow> jsvalue \<Rightarrow> bool" where
  "strict_equals a b = (a = b)"

section \<open>The JavaScript \<^verbatim>\<open>Map\<close>: keyed entries iterated in insertion order\<close>

type_synonym ('k, 'v) jsmap = "('k \<times> 'v) list"

fun map_get :: "('k, 'v) jsmap \<Rightarrow> 'k \<Rightarrow> 'v option" where
  "map_get [] k = None"
| "map_get ((k', v) # m) k = (if k' = k then Some v else map_get m k)"

text \<open>\<^verbatim>\<open>set\<close> on a key that is present replaces the value where it stands; a new key goes last.\<close>

fun map_set :: "'k \<Rightarrow> 'v \<Rightarrow> ('k, 'v) jsmap \<Rightarrow> ('k, 'v) jsmap" where
  "map_set k v [] = [(k, v)]"
| "map_set k v ((k', v') # m) = (if k' = k then (k, v) # m else (k', v') # map_set k v m)"

fun map_delete :: "'k \<Rightarrow> ('k, 'v) jsmap \<Rightarrow> ('k, 'v) jsmap" where
  "map_delete k [] = []"
| "map_delete k ((k', v') # m) = (if k' = k then m else (k', v') # map_delete k m)"

definition map_has :: "('k, 'v) jsmap \<Rightarrow> 'k \<Rightarrow> bool" where
  "map_has m k = (map_get m k \<noteq> None)"

definition map_values :: "('k, 'v) jsmap \<Rightarrow> 'v list" where
  "map_values m = map snd m"

definition map_keys :: "('k, 'v) jsmap \<Rightarrow> 'k list" where
  "map_keys m = map fst m"

definition map_size :: "('k, 'v) jsmap \<Rightarrow> nat" where
  "map_size m = length m"

section \<open>Data model of \<^verbatim>\<open>server.ts\<close>\<close>

text \<open>A \<^verbatim>\<open>Socket\<close> object is identified by its \<^verbatim>\<open>socket.id\<close>.\<close>

type_synonym Socket = string

record ScreenshotData =
  image :: jsvalue
  timestamp :: jsvalue
  clientId :: jsvalue

record WindowsClient =
  socketId :: string
  clientId :: jsvalue
  socket :: Socket
  lastScreenshot :: "ScreenshotData option"
  connectedAt :: nat
  hostname :: jsvalue

record WebClient =
  socketId :: string
  socket :: Socket
  watchingClientId :: jsvalue

text \<open>One element of the \<^verbatim>\<open>pcs\<close> array of a \<^verbatim>\<open>pc_list_update\<close>.\<close>

record PcListItem =
  clientId :: jsvalue
  hostname :: jsvalue
  connectedAt :: nat
  hasScreenshot :: bool

text \<open>One element of the \<^verbatim>\<open>pcs\<close> array answered by \<^verbatim>\<open>GET /connected-pcs\<close>.\<close>

record ConnectedPc =
  clientId :: jsvalue
  socketId :: string
  hostname :: jsvalue
  connectedAt :: nat
  hasScreenshot :: bool

text \<open>The two global maps.\<close>

record state =
  windowsClients :: "(jsvalue, WindowsClient) jsmap"
  webClients :: "(string, WebClient) jsmap"

definition initial_state :: state where
  "initial_state = \<lparr> windowsClients = [], webClients = [] \<rparr>"

text \<open>
  Events the server emits. \<open>update_overlay t\<close> stands for the payload
  \<^verbatim>\<open>{ text: String(t) }\<close>: the conversion is applied to \<open>t\<close> and is not unfolded here.
  \<open>execute_command ps\<close> carries an object with the properties \<open>ps\<close>.
\<close>

datatype event =
    update_overlay jsvalue
  | toggle_overlay jsvalue
  | request_screenshot
  | execute_command "(string \<times> jsvalue) list"
  | screen_update ScreenshotData
  | pc_list_update "PcListItem list"

text \<open>An emission is \<^verbatim>\<open>socket.emit(event, payload)\<close> on the named socket.\<close>

type_synonym emission = "Socket \<times> event"

text \<open>HTTP answers: a JSON body with status 200, or \<^verbatim>\<open>res.status(code).json({ error })\<close>.\<close>

datatype response =
    UpdateOk jsvalue nat
  | ToggleOk jsvalue
  | ScreenshotOk ScreenshotData
  | ConnectedPcsOk "ConnectedPc list" nat
  | ErrorResponse nat string

text \<open>
  What a client sends along with \<^verbatim>\<open>request_screenshot\<close> or \<^verbatim>\<open>remote_command\<close>: nothing, so
  that the handler's \<^verbatim>\<open>data\<close> is \<^verbatim>\<open>undefined\<close>, or an object, given by its properties. The
  handlers destructure \<^verbatim>\<open>data\<close> in their first statement, which throws a \<^verbatim>\<open>TypeError\<close> when
  there is no payload. A property the object does not have reads as \<open>Undefined\<close>.
\<close>

datatype payload = Absent | Fields "(string \<times> jsvalue) list"

datatype error = TypeError

definition payload_field :: "(string \<times> jsvalue) list \<Rightarrow> string \<Rightarrow> jsvalue" where
  "payload_field fs name = (case map_of fs name of None \<Rightarrow> Undefined | Some v \<Rightarrow> v)"

section \<open>HTTP endpoints\<close>

text \<open>\<^verbatim>\<open>POST /update\<close> with body fields \<^verbatim>\<open>text\<close> and \<^verbatim>\<open>clientId\<close>.\<close>

definition post_update :: "state \<Rightarrow> jsvalue \<Rightarrow> jsvalue \<Rightarrow> response \<times> emission list" where
  "post_update st text cid =
     (if \<not> truthy text \<and> \<not> strict_equals text (Number 0)
      then (ErrorResponse 400 ''Text required'', [])
      else if truthy cid then
        (case map_get (windowsClients st) cid of
           Some client \<Rightarrow>
             (UpdateOk text 1, [(WindowsClient.socket client, update_overlay text)])
         | None \<Rightarrow> (ErrorResponse 404 ''Client not found'', []))
      else
        (UpdateOk text (map_size (windowsClients st)),
         map (\<lambda>client. (WindowsClient.socket client, update_overlay text))
           (map_values (windowsClients st))))"

text \<open>\<^verbatim>\<open>POST /toggle-overlay\<close> with body fields \<^verbatim>\<open>visible\<close> and \<^verbatim>\<open>clientId\<close>.\<close>

definition post_toggle_overlay :: "state \<Rightarrow> jsvalue \<Rightarrow> jsvalue \<Rightarrow> response \<times> emission list" where
  "post_toggle_overlay st visible cid =
     (if truthy cid then
        (case map_get (windowsClients st) cid of
           Some client \<Rightarrow>
             (ToggleOk visible, [(WindowsClient.socket client, toggle_overlay visible)])
         | None \<Rightarrow> (ErrorResponse 404 ''Client not found'', []))
      else
        (ToggleOk visible,
         map (\<lambda>client. (WindowsClient.socket client, toggle_overlay visible))
           (map_values (windowsClients st))))"


text \<open>\<^verbatim>\<open>GET /connected-pcs\<close>\<close>

definition connected_pc :: "WindowsClient \<Rightarrow> ConnectedPc" where
  "connected_pc client =
     \<lparr> ConnectedPc.clientId = WindowsClient.clientId client,
       socketId = WindowsClient.socketId client,
       hostname = or_else (WindowsClient.hostname client) (String ''Unknown PC''),
       connectedAt = WindowsClient.connectedAt client,
       hasScreenshot = (lastScreenshot client \<noteq> None) \<rparr>"

definition get_connected_pcs :: "state \<Rightarrow> response" where
  "get_connected_pcs st =
     (let pcs = map connected_pc (map_values (windowsClients st))
      in ConnectedPcsOk pcs (length pcs))"

section \<open>Socket handlers\<close>

text \<open>The projection shared by \<^verbatim>\<open>broadcastPCList\<close> and the answer to a joining web client.\<close>

definition pc_list_item :: "WindowsClient \<Rightarrow> PcListItem" where
  "pc_list_item client =
     \<lparr> PcListItem.clientId = WindowsClient.clientId client,
       hostname = WindowsClient.hostname client,
       connectedAt = WindowsClient.connectedAt client,
       hasScreenshot = (lastScreenshot client \<noteq> None) \<rparr>"

definition broadcastPCList :: "state \<Rightarrow> emission list" where
  "broadcastPCList st =
     (let pcList = map pc_list_item (map_values (windowsClients st))
      in map (\<lambda>webClient. (WebClient.socket webClient, pc_list_update pcList))
           (map_values (webClients st)))"

text \<open>
  \<^verbatim>\<open>client_type\<close> from \<open>sock\<close> with payload fields \<^verbatim>\<open>type\<close>, \<^verbatim>\<open>clientId\<close>, \<^verbatim>\<open>hostname\<close>;
  \<open>now\<close> is the value of \<^verbatim>\<open>Date.now()\<close>.
\<close>

definition on_client_type ::
  "state \<Rightarrow> Socket \<Rightarrow> jsvalue \<Rightarrow> jsvalue \<Rightarrow> jsvalue \<Rightarrow> nat \<Rightarrow> state \<times> emission list" where
  "on_client_type st sock ty cid hn now =
     (if strict_equals ty (String ''windows'') then
        (let key = or_else cid (String sock);
             name = or_else hn (String ''Unknown PC'');
             windowsClient =
               \<lparr> WindowsClient.socketId = sock,
                 clientId = key,
                 socket = sock,
                 lastScreenshot = None,
                 connectedAt = now,
                 hostname = name \<rparr>;
             st' = st\<lparr>windowsClients := map_set key windowsClient (windowsClients st)\<rparr>
         in (st', broadcastPCList st'))
      else if strict_equals ty (String ''web'') then
        (let webClient =
               \<lparr> WebClient.socketId = sock, socket = sock, watchingClientId = Null \<rparr>;
             st' = st\<lparr>webClients := map_set sock webClient (webClients st)\<rparr>
         in (st', [(sock, pc_list_update
                      (map pc_list_item (map_values (windowsClients st'))))]))
      else (st, []))"

text \<open>\<^verbatim>\<open>watch_pc\<close> from \<open>sock\<close> with payload field \<^verbatim>\<open>clientId\<close>.\<close>

definition on_watch_pc :: "state \<Rightarrow> Socket \<Rightarrow> jsvalue \<Rightarrow> state \<times> emission list" where
  "on_watch_pc st sock cid =
     (case map_get (webClients st) sock of
        None \<Rightarrow> (st, [])
      | Some webClient \<Rightarrow>
          (let st' = st\<lparr>webClients :=
                 map_set sock (webClient\<lparr>watchingClientId := cid\<rparr>) (webClients st)\<rparr>
           in (st',
               (case map_get (windowsClients st') cid of
                  None \<Rightarrow> []
                | Some windowsClient \<Rightarrow>
                    (case lastScreenshot windowsClient of
                       None \<Rightarrow> []
                     | Some shot \<Rightarrow> [(sock, screen_update shot)])))))"

text \<open>\<^verbatim>\<open>unwatch_pc\<close> from \<open>sock\<close>.\<close>

definition on_unwatch_pc :: "state \<Rightarrow> Socket \<Rightarrow> state \<times> emission list" where
  "on_unwatch_pc st sock =
     (case map_get (webClients st) sock of
        None \<Rightarrow> (st, [])
      | Some webClient \<Rightarrow>
          (st\<lparr>webClients :=
                map_set sock (webClient\<lparr>watchingClientId := Null\<rparr>) (webClients st)\<rparr>, []))"

text \<open>
  The search loops of the \<^verbatim>\<open>screen_update\<close> and \<^verbatim>\<open>disconnect\<close> handlers: the first entry,
  in iteration order, whose \<^verbatim>\<open>socketId\<close> is the socket's id.
\<close>

fun find_by_socket ::
  "Socket \<Rightarrow> (jsvalue, WindowsClient) jsmap \<Rightarrow> (jsvalue \<times> WindowsClient) option" where
  "find_by_socket sock [] = None"
| "find_by_socket sock ((k, client) # m) =
     (if WindowsClient.socketId client = sock then Some (k, client)
      else find_by_socket sock m)"

text \<open>\<^verbatim>\<open>windowsClient.lastScreenshot = screenshot\<close> on the entry that the search loop found.\<close>

fun store_screenshot ::
  "Socket \<Rightarrow> ScreenshotData \<Rightarrow> (jsvalue, WindowsClient) jsmap \<Rightarrow> (jsvalue, WindowsClient) jsmap"
  where
  "store_screenshot sock shot [] = []"
| "store_screenshot sock shot ((k, client) # m) =
     (if WindowsClient.socketId client = sock
      then (k, client\<lparr>lastScreenshot := Some shot\<rparr>) # m
      else (k, client) # store_screenshot sock shot m)"

text \<open>\<^verbatim>\<open>screen_update\<close> from \<open>sock\<close> with payload fields \<^verbatim>\<open>image\<close> and \<^verbatim>\<open>timestamp\<close>.\<close>

definition on_screen_update ::
  "state \<Rightarrow> Socket \<Rightarrow> jsvalue \<Rightarrow> jsvalue \<Rightarrow> state \<times> emission list" where
  "on_screen_update st sock img ts =
     (case find_by_socket sock (windowsClients st) of
        None \<Rightarrow> (st, [])
      | Some (key, windowsClient) \<Rightarrow>
          (let screenshot =
                 \<lparr> ScreenshotData.image = img,
                   timestamp = ts,
                   clientId = WindowsClient.clientId windowsClient \<rparr>;
               st' = st\<lparr>windowsClients :=
                        store_screenshot sock screenshot (windowsClients st)\<rparr>
           in (st',
               map (\<lambda>webClient. (WebClient.socket webClient, screen_update screenshot))
                 (filter (\<lambda>webClient.
                            strict_equals (watchingClientId webClient)
                              (WindowsClient.clientId windowsClient))
                    (map_values (webClients st'))))))"

text \<open>
  \<^verbatim>\<open>request_screenshot\<close> with payload \<open>data\<close>, whose property \<^verbatim>\<open>clientId\<close> the first
  statement reads by destructuring.
\<close>

definition on_request_screenshot :: "state \<Rightarrow> payload \<Rightarrow> error + state \<times> emission list" where
  "on_request_screenshot st data =
     (case data of
        Absent \<Rightarrow> Inl TypeError
      | Fields fs \<Rightarrow>
          (let cid = payload_field fs ''clientId'' in
           if truthy cid then
             (case map_get (windowsClients st) cid of
                Some windowsClient \<Rightarrow>
                  Inr (st, [(WindowsClient.socket windowsClient, request_screenshot)])
              | None \<Rightarrow> Inr (st, []))
           else
             Inr (st, map (\<lambda>client. (WindowsClient.socket client, request_screenshot))
                        (map_values (windowsClients st)))))"

text \<open>
  \<^verbatim>\<open>remote_command\<close> with payload \<open>data\<close>, whose properties \<^verbatim>\<open>clientId\<close> and \<^verbatim>\<open>command\<close> the
  first statement reads by destructuring. The targeted branch sends \<^verbatim>\<open>{ command }\<close>, the
  broadcast branch forwards the payload as it came.
\<close>

definition on_remote_command :: "state \<Rightarrow> payload \<Rightarrow> error + state \<times> emission list" where
  "on_remote_command st data =
     (case data of
        Absent \<Rightarrow> Inl TypeError
      | Fields fs \<Rightarrow>
          (let cid = payload_field fs ''clientId'';
               command = payload_field fs ''command'' in
           if truthy cid then
             (case map_get (windowsClients st) cid of
                Some windowsClient \<Rightarrow>
                  Inr (st, [(WindowsClient.socket windowsClient,
                             execute_command [(''command'', command)])])
              | None \<Rightarrow> Inr (st, []))
           else
             Inr (st, map (\<lambda>client. (WindowsClient.socket client, execute_command fs))
                        (map_values (windowsClients st)))))"

text \<open>\<^verbatim>\<open>disconnect\<close> of \<open>sock\<close>.\<close>

definition on_disconnect :: "state \<Rightarrow> Socket \<Rightarrow> state \<times> emission list" where
  "on_disconnect st sock =
     (let (st1, out) =
            (case find_by_socket sock (windowsClients st) of
               Some (key, client) \<Rightarrow>
                 (let st' = st\<lparr>windowsClients := map_delete key (windowsClients st)\<rparr>
                  in (st', broadcastPCList st'))
             | None \<Rightarrow> (st, []));
          st2 = (if map_has (webClients st1) sock
                 then st1\<lparr>webClients := map_delete sock (webClients st1)\<rparr>
                 else st1)
      in (st2, out))"

section \<open>The earlier single-screenshot server\<close>

text \<open>
  The earlier variant of the server keeps \<^verbatim>\<open>windowsClients\<close> as a map from socket id to
  socket; its \<^verbatim>\<open>POST /update\<close> reads \<^verbatim>\<open>text\<close> only and always broadcasts.
\<close>

definition legacy_post_update ::
  "(string, Socket) jsmap \<Rightarrow> jsvalue \<Rightarrow> response \<times> emission list" where
  "legacy_post_update windows text =
     (if \<not> truthy text \<and> \<not> strict_equals text (Number 0)
      then (ErrorResponse 400 ''Text required'', [])
      else
        (UpdateOk text (map_size windows),
         map (\<lambda>sock. (sock, update_overlay text)) (map_values windows)))"

section \<open>Runs of the server\<close>

text \<open>
  The socket events that write the maps. The HTTP endpoints and the handlers of
  \<^verbatim>\<open>request_screenshot\<close> and \<^verbatim>\<open>remote_command\<close> never write them, so they do not appear among
  the state-changing inputs.
\<close>

datatype input =
    Client_type Socket jsvalue jsvalue jsvalue nat
  | Watch_pc Socket jsvalue
  | Unwatch_pc Socket
  | Screen_update Socket jsvalue jsvalue
  | Disconnect Socket

fun handle :: "state \<Rightarrow> input \<Rightarrow> state \<times> emission list" where
  "handle st (Client_type sock ty cid hn now) = on_client_type st sock ty cid hn now"
| "handle st (Watch_pc sock cid) = on_watch_pc st sock cid"
| "handle st (Unwatch_pc sock) = on_unwatch_pc st sock"
| "handle st (Screen_update sock img ts) = on_screen_update st sock img ts"
| "handle st (Disconnect sock) = on_disconnect st sock"

fun run :: "state \<Rightarrow> input list \<Rightarrow> state" where
  "run st [] = st"
| "run st (i # is) = run (fst (handle st i)) is"

inductive reachable :: "state \<Rightarrow> bool" where
  reachable_initial: "reachable initial_state"
| reachable_step: "reachable st \<Longrightarrow> reachable (fst (handle st i))"

section \<open>Well-formedness of the two maps\<close>

text \<open>
  What every entry of \<^verbatim>\<open>windowsClients\<close> satisfies once it has been stored by the
  \<^verbatim>\<open>client_type\<close> handler: it sits under its own \<^verbatim>\<open>clientId\<close>, its socket is the one
  its \<^verbatim>\<open>socketId\<close> names, and a stored screenshot carries the entry's id.
\<close>

definition windows_entry_ok :: "jsvalue \<times> WindowsClient \<Rightarrow> bool" where
  "windows_entry_ok e =
     (WindowsClient.clientId (snd e) = fst e \<and>
      WindowsClient.socket (snd e) = WindowsClient.socketId (snd e) \<and>
      (case lastScreenshot (snd e) of
         None \<Rightarrow> True
       | Some shot \<Rightarrow> ScreenshotData.clientId shot = fst e))"

definition web_entry_ok :: "string \<times> WebClient \<Rightarrow> bool" where
  "web_entry_ok e =
     (WebClient.socketId (snd e) = fst e \<and> WebClient.socket (snd e) = fst e)"

definition well_formed :: "state \<Rightarrow> bool" where
  "well_formed st =
     (distinct (map_keys (windowsClients st)) \<and> list_all windows_entry_ok (windowsClients st) \<and>
      distinct (map_keys (webClients st)) \<and> list_all web_entry_ok (webClients st))"

section \<open>The producer registry as the specification describes it\<close>

text \<open>The producer ids that \<^verbatim>\<open>GET /connected-pcs\<close> lists, in the order of the answer.\<close>

definition listAll_ids :: "state \<Rightarrow> jsvalue list" where
  "listAll_ids st =
     (case get_connected_pcs st of
        ConnectedPcsOk pcs n \<Rightarrow> map ConnectedPc.clientId pcs
      | _ \<Rightarrow> [])"

text \<open>
  The specification's \<open>ProducerEntry\<close>, with the stored snapshot reduced to whether there
  is one.
\<close>

record ProducerEntry =
  producerId :: jsvalue
  connectionId :: string
  displayName :: jsvalue
  connectedAt :: nat
  hasSnapshot :: bool

text \<open>
  \<open>Register\<close> inserts or replaces the entry: a new id goes after the ones present, an id
  that is present keeps its place, and the fresh entry holds no snapshot.
\<close>

definition spec_Register ::
  "jsvalue \<Rightarrow> string \<Rightarrow> jsvalue \<Rightarrow> nat \<Rightarrow> ProducerEntry list \<Rightarrow> ProducerEntry list" where
  "spec_Register pid conn name now reg =
     (let entry = \<lparr> producerId = pid, connectionId = conn, displayName = name,
                     connectedAt = now, hasSnapshot = False \<rparr>
      in if pid \<in> set (map producerId reg)
         then map (\<lambda>e. if producerId e = pid then entry else e) reg
         else reg @ [entry])"

text \<open>\<open>UnregisterByConnection\<close> removes whichever entry has that connection id.\<close>

definition spec_UnregisterByConnection :: "string \<Rightarrow> ProducerEntry list \<Rightarrow> ProducerEntry list" where
  "spec_UnregisterByConnection conn reg = filter (\<lambda>e. connectionId e \<noteq> conn) reg"

text \<open>
  \<open>UpdateSnapshot\<close> for the producer on the given connection: its entry holds a snapshot
  from then on; with no such entry the update is dropped.
\<close>

definition spec_UpdateSnapshot :: "string \<Rightarrow> ProducerEntry list \<Rightarrow> ProducerEntry list" where
  "spec_UpdateSnapshot conn reg =
     map (\<lambda>e. if connectionId e = conn then e\<lparr>hasSnapshot := True\<rparr> else e) reg"

text \<open>
  The registry operation each event stands for: a role declaration as producer registers
  under the supplied id, or under the connection identity when none is supplied, with the
  label "Unknown PC" when none is supplied; a snapshot push updates; a disconnect
  unregisters by connection.
\<close>

fun spec_step :: "ProducerEntry list \<Rightarrow> input \<Rightarrow> ProducerEntry list" where
  "spec_step reg (Client_type sock ty cid hn now) =
     (if ty = String ''windows''
      then spec_Register (if truthy cid then cid else String sock) sock
             (if truthy hn then hn else String ''Unknown PC'') now reg
      else reg)"
| "spec_step reg (Watch_pc sock cid) = reg"
| "spec_step reg (Unwatch_pc sock) = reg"
| "spec_step reg (Screen_update sock img ts) = spec_UpdateSnapshot sock reg"
| "spec_step reg (Disconnect sock) = spec_UnregisterByConnection sock reg"

fun spec_registry :: "ProducerEntry list \<Rightarrow> input list \<Rightarrow> ProducerEntry list" where
  "spec_registry reg [] = reg"
| "spec_registry reg (i # is) = spec_registry (spec_step reg i) is"

text \<open>\<open>ListAll\<close>: the projection of the entries, in registry order.\<close>

definition spec_ListAll :: "ProducerEntry list \<Rightarrow> PcListItem list" where
  "spec_ListAll reg =
     map (\<lambda>e. \<lparr> PcListItem.clientId = producerId e, hostname = displayName e,
                 connectedAt = ProducerEntry.connectedAt e, hasScreenshot = hasSnapshot e \<rparr>) reg"

text \<open>The same projection with the connection id of each entry added.\<close>

definition spec_ListAll_with_connection :: "ProducerEntry list \<Rightarrow> ConnectedPc list" where
  "spec_ListAll_with_connection reg =
     map (\<lambda>e. \<lparr> ConnectedPc.clientId = producerId e, socketId = connectionId e,
                 hostname = displayName e, connectedAt = ProducerEntry.connectedAt e,
                 hasScreenshot = hasSnapshot e \<rparr>) reg"

text \<open>
  Whenever an event of the run arrives, no connection holds more than one entry of the
  registry.
\<close>

fun one_entry_per_connection :: "ProducerEntry list \<Rightarrow> input list \<Rightarrow> bool" where
  "one_entry_per_connection reg [] = True"
| "one_entry_per_connection reg (i # is) =
     (distinct (map connectionId reg) \<and> one_entry_per_connection (spec_step reg i) is)"

text \<open>The registry entry that an entry of \<^verbatim>\<open>windowsClients\<close> represents.\<close>

definition entry_of :: "jsvalue \<times> WindowsClient \<Rightarrow> ProducerEntry" where
  "entry_of e =
     \<lparr> producerId = fst e, connectionId = WindowsClient.socketId (snd e),
       displayName = WindowsClient.hostname (snd e),
       connectedAt = WindowsClient.connectedAt (snd e),
       hasSnapshot = (lastScreenshot (snd e) \<noteq> None) \<rparr>"

section \<open>Facts about the map operations\<close>

lemma map_get_map_set_same: "map_get (map_set k v m) k = Some v"
  by (induction m) auto

lemma map_get_map_set_other: "k' \<noteq> k \<Longrightarrow> map_get (map_set k v m) k' = map_get m k'"
  by (induction m) auto

lemma map_get_None_iff: "map_get m k = None \<longleftrightarrow> k \<notin> set (map_keys m)"
  by (induction m) (auto simp: map_keys_def split: if_splits)

lemma map_get_Some_mem: "map_get m k = Some v \<Longrightarrow> (k, v) \<in> set m"
  by (induction m) (auto split: if_splits)

lemma map_keys_map_set:
  "map_keys (map_set k v m) = (if k \<in> set (map_keys m) then map_keys m else map_keys m @ [k])"
  by (induction m) (auto simp: map_keys_def split: if_splits)

lemma map_keys_map_delete: "map_keys (map_delete k m) = remove1 k (map_keys m)"
  by (induction m) (auto simp: map_keys_def)

lemma find_by_socket_None_iff:
  "find_by_socket sock m = None \<longleftrightarrow>
     sock \<notin> set (map WindowsClient.socketId (map_values m))"
  by (induction m) (auto simp: map_values_def split: if_splits)

section \<open>Validation of \<^verbatim>\<open>POST /update\<close>\<close>

lemma rejected_text_iff:
  "(\<not> truthy text \<and> \<not> strict_equals text (Number 0)) \<longleftrightarrow>
     text \<in> {Undefined, Null, Boolean False, String ''''}"
  by (cases "text") (auto simp: strict_equals_def)

text \<open>
  C2, as stated, fails: a body whose \<^verbatim>\<open>text\<close> field is present and is the empty string is
  answered with status 400 and nothing is forwarded, in the current handler and in the
  earlier one, although a producer is registered.
\<close>

theorem post_update_empty_string_rejected:
  "String '''' \<noteq> Undefined \<and>
   post_update
     \<lparr> windowsClients =
         [(String ''pc-1'',
           \<lparr> WindowsClient.socketId = ''s1'', clientId = String ''pc-1'', socket = ''s1'',
             lastScreenshot = None, connectedAt = 0, hostname = String ''Unknown PC'' \<rparr>)],
       webClients = [] \<rparr>
     (String '''') Undefined
   = (ErrorResponse 400 ''Text required'', []) \<and>
   legacy_post_update [(''s1'', ''s1'')] (String '''') = (ErrorResponse 400 ''Text required'', [])"
  by (simp add: post_update_def legacy_post_update_def strict_equals_def)

text \<open>
  C2, amended: \<^verbatim>\<open>POST /update\<close> answers 400 "Text required" exactly when \<^verbatim>\<open>text\<close> is
  absent, \<^verbatim>\<open>null\<close>, \<^verbatim>\<open>false\<close> or the empty string, in the current handler and in the earlier
  one. The number 0 is accepted; every accepted text that names no client is forwarded
  as \<^verbatim>\<open>update_overlay\<close> to every registered producer.
\<close>

theorem post_update_rejects_iff_falsy_not_zero:
  "(fst (post_update st text cid) = ErrorResponse 400 ''Text required'') =
     (text \<in> {Undefined, Null, Boolean False, String ''''}) \<and>
   (fst (legacy_post_update windows text) = ErrorResponse 400 ''Text required'') =
     (text \<in> {Undefined, Null, Boolean False, String ''''}) \<and>
   snd (post_update st text Undefined) =
     (if text \<in> {Undefined, Null, Boolean False, String ''''} then []
      else map (\<lambda>client. (WindowsClient.socket client, update_overlay text))
             (map_values (windowsClients st))) \<and>
   snd (legacy_post_update windows text) =
     (if text \<in> {Undefined, Null, Boolean False, String ''''} then []
      else map (\<lambda>sock. (sock, update_overlay text)) (map_values windows)) \<and>
   fst (post_update st (Number 0) Undefined) = UpdateOk (Number 0) (map_size (windowsClients st)) \<and>
   fst (legacy_post_update windows (Number 0)) = UpdateOk (Number 0) (map_size windows)"
proof -
  let ?bad = "text \<in> {Undefined, Null, Boolean False, String ''''}"
  have r: "(\<not> truthy text \<and> \<not> strict_equals text (Number 0)) = ?bad"
    by (rule rejected_text_iff)
  have a: "(fst (post_update st text cid) = ErrorResponse 400 ''Text required'') = ?bad"
    unfolding post_update_def r by (simp split: option.splits)
  have b: "(fst (legacy_post_update windows text) = ErrorResponse 400 ''Text required'') = ?bad"
    unfolding legacy_post_update_def r by simp
  have c: "snd (post_update st text Undefined) =
     (if ?bad then []
      else map (\<lambda>client. (WindowsClient.socket client, update_overlay text))
             (map_values (windowsClients st)))"
    unfolding post_update_def r by simp
  have d: "snd (legacy_post_update windows text) =
     (if ?bad then [] else map (\<lambda>sock. (sock, update_overlay text)) (map_values windows))"
    unfolding legacy_post_update_def r by simp
  have e: "fst (post_update st (Number 0) Undefined) =
     UpdateOk (Number 0) (map_size (windowsClients st))"
    by (simp add: post_update_def strict_equals_def)
  have f: "fst (legacy_post_update windows (Number 0)) = UpdateOk (Number 0) (map_size windows)"
    by (simp add: legacy_post_update_def strict_equals_def)
  from a b c d e f show ?thesis by blast
qed

section \<open>Snapshot pushes from unregistered connections\<close>

text \<open>
  C8: a \<^verbatim>\<open>screen_update\<close> from a socket that no producer entry names is dropped: the
  handler leaves both maps as they are and emits nothing, to the sender or to anyone.
\<close>

theorem screen_update_unregistered_dropped:
  "sock \<notin> set (map WindowsClient.socketId (map_values (windowsClients st))) \<Longrightarrow>
   on_screen_update st sock img ts = (st, [])"
  using find_by_socket_None_iff [of sock "windowsClients st"]
  by (simp add: on_screen_update_def)

theorem screen_update_unregistered_dropped_witness:
  "''s2'' \<notin> set (map WindowsClient.socketId (map_values (windowsClients
      \<lparr> windowsClients =
          [(String ''pc-1'',
            \<lparr> WindowsClient.socketId = ''s1'', clientId = String ''pc-1'', socket = ''s1'',
              lastScreenshot = None, connectedAt = 0, hostname = String ''Unknown PC'' \<rparr>)],
        webClients =
          [(''w1'', \<lparr> WebClient.socketId = ''w1'', socket = ''w1'',
                     watchingClientId = String ''pc-1'' \<rparr>)] \<rparr>))) \<and>
   on_screen_update
      \<lparr> windowsClients =
          [(String ''pc-1'',
            \<lparr> WindowsClient.socketId = ''s1'', clientId = String ''pc-1'', socket = ''s1'',
              lastScreenshot = None, connectedAt = 0, hostname = String ''Unknown PC'' \<rparr>)],
        webClients =
          [(''w1'', \<lparr> WebClient.socketId = ''w1'', socket = ''w1'',
                     watchingClientId = String ''pc-1'' \<rparr>)] \<rparr>
      ''s2'' (String ''img'') (Number 100)
   = (\<lparr> windowsClients =
          [(String ''pc-1'',
            \<lparr> WindowsClient.socketId = ''s1'', clientId = String ''pc-1'', socket = ''s1'',
              lastScreenshot = None, connectedAt = 0, hostname = String ''Unknown PC'' \<rparr>)],
        webClients =
          [(''w1'', \<lparr> WebClient.socketId = ''w1'', socket = ''w1'',
                     watchingClientId = String ''pc-1'' \<rparr>)] \<rparr>, [])"
proof -
  have h: "''s2'' \<notin> set (map WindowsClient.socketId (map_values (windowsClients
      \<lparr> windowsClients =
          [(String ''pc-1'',
            \<lparr> WindowsClient.socketId = ''s1'', clientId = String ''pc-1'', socket = ''s1'',
              lastScreenshot = None, connectedAt = 0, hostname = String ''Unknown PC'' \<rparr>)],
        webClients =
          [(''w1'', \<lparr> WebClient.socketId = ''w1'', socket = ''w1'',
                     watchingClientId = String ''pc-1'' \<rparr>)] \<rparr>)))"
    by (simp add: map_values_def)
  from h screen_update_unregistered_dropped [OF h] show ?thesis by blast
qed

section \<open>Defaults applied at producer registration\<close>

text \<open>
  C10: a \<^verbatim>\<open>client_type\<close> of type \<^verbatim>\<open>windows\<close> whose \<^verbatim>\<open>clientId\<close> is falsy (absent, \<^verbatim>\<open>null\<close>,
  \<^verbatim>\<open>false\<close>, 0 or the empty string) has the effect of one with no \<^verbatim>\<open>clientId\<close>: the producer
  is stored under its socket id, and a falsy \<^verbatim>\<open>hostname\<close> is recorded as "Unknown PC".
\<close>

theorem client_type_falsy_clientId_defaults:
  "\<not> truthy cid \<Longrightarrow>
   on_client_type st sock (String ''windows'') cid hn now =
     on_client_type st sock (String ''windows'') Undefined hn now \<and>
   map_get (windowsClients (fst (on_client_type st sock (String ''windows'') cid hn now)))
       (String sock) =
     Some \<lparr> WindowsClient.socketId = sock, clientId = String sock, socket = sock,
            lastScreenshot = None, connectedAt = now,
            hostname = (if truthy hn then hn else String ''Unknown PC'') \<rparr>"
  by (simp add: on_client_type_def or_else_def strict_equals_def Let_def map_get_map_set_same)

theorem client_type_falsy_clientId_defaults_witness:
  "\<not> truthy (String '''') \<and>
   on_client_type initial_state ''s1'' (String ''windows'') (String '''') (String '''') 7 =
     on_client_type initial_state ''s1'' (String ''windows'') Undefined (String '''') 7 \<and>
   map_get (windowsClients
       (fst (on_client_type initial_state ''s1'' (String ''windows'') (String '''') (String '''') 7)))
       (String ''s1'') =
     Some \<lparr> WindowsClient.socketId = ''s1'', clientId = String ''s1'', socket = ''s1'',
            lastScreenshot = None, connectedAt = 7, hostname = String ''Unknown PC'' \<rparr>"
proof -
  have h: "\<not> truthy (String '''')" by simp
  have e: "(if truthy (String '''') then String '''' else String ''Unknown PC'') =
           String ''Unknown PC''" by simp
  note t = client_type_falsy_clientId_defaults [OF h, of initial_state "''s1''" "String ''''" 7]
  from h t [unfolded e] show ?thesis by blast
qed

section \<open>The maps stay well formed\<close>

lemma set_map_set_subset: "set (map_set k v m) \<subseteq> insert (k, v) (set m)"
  by (induction m) (auto split: if_splits)

lemma set_map_delete_subset: "set (map_delete k m) \<subseteq> set m"
  by (induction m) (auto split: if_splits)

lemma distinct_map_keys_map_set: "distinct (map_keys m) \<Longrightarrow> distinct (map_keys (map_set k v m))"
  by (simp add: map_keys_map_set)

lemma distinct_map_keys_map_delete:
  "distinct (map_keys m) \<Longrightarrow> distinct (map_keys (map_delete k m))"
  by (simp add: map_keys_map_delete)

lemma list_all_map_set: "list_all P m \<Longrightarrow> P (k, v) \<Longrightarrow> list_all P (map_set k v m)"
  using set_map_set_subset [of k v m] by (auto simp: list_all_iff)

lemma list_all_map_delete: "list_all P m \<Longrightarrow> list_all P (map_delete k m)"
  using set_map_delete_subset [of k m] by (auto simp: list_all_iff)

lemma map_keys_store_screenshot: "map_keys (store_screenshot sock shot m) = map_keys m"
  by (induction m) (auto simp: map_keys_def)

lemma find_by_socket_Some_mem: "find_by_socket sock m = Some e \<Longrightarrow> e \<in> set m"
  by (induction m) (auto split: if_splits)

lemma find_by_socket_Some_socketId:
  "find_by_socket sock m = Some (k, c) \<Longrightarrow> WindowsClient.socketId c = sock"
  by (induction m) (auto split: if_splits)

lemma list_all_store_screenshot:
  "list_all windows_entry_ok m \<Longrightarrow> find_by_socket sock m = Some (k, c) \<Longrightarrow>
   ScreenshotData.clientId shot = WindowsClient.clientId c \<Longrightarrow>
   list_all windows_entry_ok (store_screenshot sock shot m)"
  by (induction m) (auto simp: windows_entry_ok_def split: if_splits)

lemma map_get_Some_iff:
  "distinct (map_keys m) \<Longrightarrow> map_get m k = Some v \<longleftrightarrow> (k, v) \<in> set m"
  by (induction m) (auto simp: map_keys_def rev_image_eqI split: if_splits)

lemma well_formed_initial: "well_formed initial_state"
  by (simp add: well_formed_def initial_state_def map_keys_def)

lemma well_formed_client_type:
  "well_formed st \<Longrightarrow> well_formed (fst (on_client_type st sock ty cid hn now))"
  by (auto simp: well_formed_def on_client_type_def Let_def distinct_map_keys_map_set
      strict_equals_def or_else_def windows_entry_ok_def web_entry_ok_def
      intro!: list_all_map_set)

lemma web_entry_ok_watching:
  assumes "list_all web_entry_ok m" and "map_get m sock = Some w"
  shows "list_all web_entry_ok (map_set sock (w\<lparr>watchingClientId := v\<rparr>) m)"
proof (rule list_all_map_set [OF assms(1)])
  from assms(2) have "(sock, w) \<in> set m" by (rule map_get_Some_mem)
  with assms(1) have "web_entry_ok (sock, w)" by (simp add: list_all_iff)
  then show "web_entry_ok (sock, w\<lparr>watchingClientId := v\<rparr>)"
    by (simp add: web_entry_ok_def)
qed

lemma well_formed_watch_pc: "well_formed st \<Longrightarrow> well_formed (fst (on_watch_pc st sock cid))"
  by (simp add: well_formed_def on_watch_pc_def Let_def distinct_map_keys_map_set
      web_entry_ok_watching split: option.splits)

lemma well_formed_unwatch_pc: "well_formed st \<Longrightarrow> well_formed (fst (on_unwatch_pc st sock))"
  by (simp add: well_formed_def on_unwatch_pc_def distinct_map_keys_map_set
      web_entry_ok_watching split: option.splits)

lemma well_formed_screen_update:
  "well_formed st \<Longrightarrow> well_formed (fst (on_screen_update st sock img ts))"
  by (auto simp: well_formed_def on_screen_update_def Let_def map_keys_store_screenshot
      intro: list_all_store_screenshot split: option.splits)

lemma well_formed_disconnect: "well_formed st \<Longrightarrow> well_formed (fst (on_disconnect st sock))"
  by (auto simp: well_formed_def on_disconnect_def Let_def distinct_map_keys_map_delete
      list_all_map_delete split: option.splits prod.splits)

lemma well_formed_handle: "well_formed st \<Longrightarrow> well_formed (fst (handle st i))"
  by (cases i)
    (simp_all add: well_formed_client_type well_formed_watch_pc well_formed_unwatch_pc
      well_formed_screen_update well_formed_disconnect)

lemma reachable_well_formed: "reachable st \<Longrightarrow> well_formed st"
  by (induction rule: reachable.induct) (simp_all add: well_formed_initial well_formed_handle)

lemma reachable_run: "reachable st \<Longrightarrow> reachable (run st is)"
  by (induction "is" arbitrary: st) (auto intro: reachable_step)

section \<open>Targeted-else-broadcast routing of the control operations\<close>

text \<open>
  C1, as stated, fails in three ways. Over HTTP, naming a producer id that is not
  registered is answered with status 404 "Client not found", an error surfaced to the
  caller. A producer id that is supplied but falsy, such as the empty string or 0, names
  no registered producer, yet the event goes to every registered producer. And a
  \<^verbatim>\<open>request_screenshot\<close> or \<^verbatim>\<open>remote_command\<close> sent without a payload supplies no id, yet
  the handler throws and the event reaches no producer.
\<close>

theorem control_routing_claim_fails:
  "truthy (String ''ghost'') \<and>
   map_get (windowsClients initial_state) (String ''ghost'') = None \<and>
   post_update initial_state (String ''hi'') (String ''ghost'') =
     (ErrorResponse 404 ''Client not found'', []) \<and>
   post_toggle_overlay initial_state (Boolean True) (String ''ghost'') =
     (ErrorResponse 404 ''Client not found'', []) \<and>
   map_get
     [(String ''pc-1'',
       \<lparr> WindowsClient.socketId = ''s1'', clientId = String ''pc-1'', socket = ''s1'',
         lastScreenshot = None, connectedAt = 0, hostname = String ''Unknown PC'' \<rparr>)]
     (String '''') = None \<and>
   post_toggle_overlay
     \<lparr> windowsClients =
         [(String ''pc-1'',
           \<lparr> WindowsClient.socketId = ''s1'', clientId = String ''pc-1'', socket = ''s1'',
             lastScreenshot = None, connectedAt = 0, hostname = String ''Unknown PC'' \<rparr>)],
       webClients = [] \<rparr>
     (Boolean True) (String '''') =
     (ToggleOk (Boolean True), [(''s1'', toggle_overlay (Boolean True))]) \<and>
   on_request_screenshot
     \<lparr> windowsClients =
         [(String ''pc-1'',
           \<lparr> WindowsClient.socketId = ''s1'', clientId = String ''pc-1'', socket = ''s1'',
             lastScreenshot = None, connectedAt = 0, hostname = String ''Unknown PC'' \<rparr>)],
       webClients = [] \<rparr>
     (Fields [(''clientId'', Number 0)]) =
     Inr (\<lparr> windowsClients =
         [(String ''pc-1'',
           \<lparr> WindowsClient.socketId = ''s1'', clientId = String ''pc-1'', socket = ''s1'',
             lastScreenshot = None, connectedAt = 0, hostname = String ''Unknown PC'' \<rparr>)],
       webClients = [] \<rparr>, [(''s1'', request_screenshot)]) \<and>
   on_request_screenshot
     \<lparr> windowsClients =
         [(String ''pc-1'',
           \<lparr> WindowsClient.socketId = ''s1'', clientId = String ''pc-1'', socket = ''s1'',
             lastScreenshot = None, connectedAt = 0, hostname = String ''Unknown PC'' \<rparr>)],
       webClients = [] \<rparr>
     Absent = Inl TypeError \<and>
   on_remote_command
     \<lparr> windowsClients =
         [(String ''pc-1'',
           \<lparr> WindowsClient.socketId = ''s1'', clientId = String ''pc-1'', socket = ''s1'',
             lastScreenshot = None, connectedAt = 0, hostname = String ''Unknown PC'' \<rparr>)],
       webClients = [] \<rparr>
     Absent = Inl TypeError"
  by (simp add: post_update_def post_toggle_overlay_def on_request_screenshot_def
      on_remote_command_def initial_state_def payload_field_def map_values_def)

text \<open>
  C1, amended: take a control operation whose request carries its fields (for the socket
  operations a payload object; for \<^verbatim>\<open>POST /update\<close> a text that passed its check), and
  call a producer id supplied when the \<^verbatim>\<open>clientId\<close> field is truthy. A supplied id that is
  registered gets the event delivered to that producer's socket and to no other. A
  supplied id that is not registered gets it delivered to no one: the two socket
  operations then return normally with the state unchanged, the two HTTP operations
  answer 404. With \<^verbatim>\<open>clientId\<close> absent or falsy the event goes to every registered
  producer, in registry order. So the recipients are all producers, one, or none.
\<close>

theorem control_targeted_else_broadcast:
  assumes "truthy text \<or> text = Number 0"
    and "cid = payload_field fs ''clientId''"
  shows
    "(truthy cid \<and> map_get (windowsClients st) cid = Some client \<longrightarrow>
        snd (post_update st text cid) = [(WindowsClient.socket client, update_overlay text)] \<and>
        snd (post_toggle_overlay st visible cid) =
          [(WindowsClient.socket client, toggle_overlay visible)] \<and>
        on_request_screenshot st (Fields fs) =
          Inr (st, [(WindowsClient.socket client, request_screenshot)]) \<and>
        on_remote_command st (Fields fs) =
          Inr (st, [(WindowsClient.socket client,
                     execute_command [(''command'', payload_field fs ''command'')])])) \<and>
     (truthy cid \<and> map_get (windowsClients st) cid = None \<longrightarrow>
        post_update st text cid = (ErrorResponse 404 ''Client not found'', []) \<and>
        post_toggle_overlay st visible cid = (ErrorResponse 404 ''Client not found'', []) \<and>
        on_request_screenshot st (Fields fs) = Inr (st, []) \<and>
        on_remote_command st (Fields fs) = Inr (st, [])) \<and>
     (\<not> truthy cid \<longrightarrow>
        snd (post_update st text cid) =
          map (\<lambda>c. (WindowsClient.socket c, update_overlay text))
            (map_values (windowsClients st)) \<and>
        snd (post_toggle_overlay st visible cid) =
          map (\<lambda>c. (WindowsClient.socket c, toggle_overlay visible))
            (map_values (windowsClients st)) \<and>
        on_request_screenshot st (Fields fs) =
          Inr (st, map (\<lambda>c. (WindowsClient.socket c, request_screenshot))
                     (map_values (windowsClients st))) \<and>
        on_remote_command st (Fields fs) =
          Inr (st, map (\<lambda>c. (WindowsClient.socket c, execute_command fs))
                     (map_values (windowsClients st))))"
proof -
  from assms(1) have ok: "(\<not> truthy text \<and> \<not> strict_equals text (Number 0)) = False"
    by (auto simp: strict_equals_def)
  show ?thesis
    unfolding post_update_def post_toggle_overlay_def on_request_screenshot_def
      on_remote_command_def ok assms(2)
    by (simp add: Let_def)
qed

theorem control_targeted_else_broadcast_witness:
  "(let st = run initial_state
       [Client_type ''s1'' (String ''windows'') (String ''pc-1'') (String ''Alpha'') 1,
        Client_type ''s2'' (String ''windows'') (String ''pc-2'') (String ''Beta'') 2]
    in (truthy (String ''hi'') \<or> String ''hi'' = Number 0) \<and>
       String ''pc-2'' =
         payload_field [(''clientId'', String ''pc-2''), (''command'', String ''lock'')] ''clientId'' \<and>
       truthy (String ''pc-2'') \<and>
       map_option WindowsClient.socket (map_get (windowsClients st) (String ''pc-2'')) = Some ''s2'' \<and>
       snd (post_update st (String ''hi'') (String ''pc-2'')) =
         [(''s2'', update_overlay (String ''hi''))] \<and>
       on_remote_command st
           (Fields [(''clientId'', String ''pc-2''), (''command'', String ''lock'')]) =
         Inr (st, [(''s2'', execute_command [(''command'', String ''lock'')])]) \<and>
       String ''pc-3'' = payload_field [(''clientId'', String ''pc-3'')] ''clientId'' \<and>
       truthy (String ''pc-3'') \<and>
       map_get (windowsClients st) (String ''pc-3'') = None \<and>
       on_request_screenshot st (Fields [(''clientId'', String ''pc-3'')]) = Inr (st, []) \<and>
       post_toggle_overlay st (Boolean False) (String ''pc-3'') =
         (ErrorResponse 404 ''Client not found'', []) \<and>
       Undefined = payload_field [] ''clientId'' \<and>
       \<not> truthy Undefined \<and>
       on_request_screenshot st (Fields []) =
         Inr (st, [(''s1'', request_screenshot), (''s2'', request_screenshot)]))"
proof -
  let ?st = "run initial_state
       [Client_type ''s1'' (String ''windows'') (String ''pc-1'') (String ''Alpha'') 1,
        Client_type ''s2'' (String ''windows'') (String ''pc-2'') (String ''Beta'') 2]"
  let ?c2 = "\<lparr> WindowsClient.socketId = ''s2'', clientId = String ''pc-2'', socket = ''s2'',
            lastScreenshot = None, connectedAt = 2, hostname = String ''Beta'' \<rparr>"
  let ?fs2 = "[(''clientId'', String ''pc-2''), (''command'', String ''lock'')]"
  let ?fs3 = "[(''clientId'', String ''pc-3'')]"
  have w: "windowsClients ?st =
     [(String ''pc-1'',
       \<lparr> WindowsClient.socketId = ''s1'', clientId = String ''pc-1'', socket = ''s1'',
         lastScreenshot = None, connectedAt = 1, hostname = String ''Alpha'' \<rparr>),
      (String ''pc-2'', ?c2)]"
    by (simp add: on_client_type_def initial_state_def strict_equals_def or_else_def Let_def)
  have h: "truthy (String ''hi'') \<or> String ''hi'' = Number 0" by simp
  have p2: "String ''pc-2'' = payload_field ?fs2 ''clientId''"
    and p3: "String ''pc-3'' = payload_field ?fs3 ''clientId''"
    and pu: "Undefined = payload_field [] ''clientId''"
    and pc: "payload_field ?fs2 ''command'' = String ''lock''"
    by (simp_all add: payload_field_def)
  have g2: "map_get (windowsClients ?st) (String ''pc-2'') = Some ?c2"
    unfolding w by simp
  have g3: "map_get (windowsClients ?st) (String ''pc-3'') = None"
    unfolding w by simp
  have t2: "truthy (String ''pc-2'')" and t3: "truthy (String ''pc-3'')" and
    tu: "\<not> truthy Undefined" by simp_all
  note a = control_targeted_else_broadcast [OF h p2, of ?st ?c2]
  note b = control_targeted_else_broadcast [OF h p3, of ?st _ "Boolean False"]
  note c = control_targeted_else_broadcast [OF h pu, of ?st]
  from a t2 g2 have r1:
    "snd (post_update ?st (String ''hi'') (String ''pc-2'')) = [(''s2'', update_overlay (String ''hi''))]"
    by simp
  from a t2 g2 have r1': "on_remote_command ?st (Fields ?fs2) =
      Inr (?st, [(''s2'', execute_command [(''command'', String ''lock'')])])"
    unfolding pc by simp
  from b t3 g3 have r2: "on_request_screenshot ?st (Fields ?fs3) = Inr (?st, [])"
    by blast
  from b t3 g3 have r2': "post_toggle_overlay ?st (Boolean False) (String ''pc-3'') =
      (ErrorResponse 404 ''Client not found'', [])"
    by blast
  from c tu have "on_request_screenshot ?st (Fields []) =
      Inr (?st, map (\<lambda>c. (WindowsClient.socket c, request_screenshot))
              (map_values (windowsClients ?st)))"
    by blast
  then have r3: "on_request_screenshot ?st (Fields []) =
      Inr (?st, [(''s1'', request_screenshot), (''s2'', request_screenshot)])"
    unfolding w by (simp add: map_values_def)
  from g2 have g2': "map_option WindowsClient.socket (map_get (windowsClients ?st) (String ''pc-2'')) =
      Some ''s2''"
    by simp
  from h p2 t2 g2' r1 r1' p3 t3 g3 r2 r2' pu tu r3 show ?thesis
    unfolding Let_def by blast
qed

section \<open>Replay on subscribe\<close>

text \<open>
  C4: when a registered consumer sends \<^verbatim>\<open>watch_pc\<close>, its watch target is set to the named
  id whatever that id is. If a producer is registered under the id and holds a cached
  screenshot, the handler itself emits exactly one \<^verbatim>\<open>screen_update\<close> carrying that
  screenshot, to the requesting socket and to no other; if the producer is absent or
  holds no screenshot, nothing is emitted.
\<close>

theorem watch_pc_replays_cached_screenshot:
  assumes "map_get (webClients st) sock = Some webClient"
  shows
    "fst (on_watch_pc st sock cid) =
        st\<lparr>webClients :=
             map_set sock (webClient\<lparr>watchingClientId := cid\<rparr>) (webClients st)\<rparr> \<and>
     map_get (webClients (fst (on_watch_pc st sock cid))) sock =
        Some (webClient\<lparr>watchingClientId := cid\<rparr>) \<and>
     windowsClients (fst (on_watch_pc st sock cid)) = windowsClients st \<and>
     (map_get (windowsClients st) cid = Some windowsClient \<and>
      lastScreenshot windowsClient = Some shot \<longrightarrow>
        snd (on_watch_pc st sock cid) = [(sock, screen_update shot)]) \<and>
     (map_get (windowsClients st) cid = None \<longrightarrow> snd (on_watch_pc st sock cid) = []) \<and>
     (map_get (windowsClients st) cid = Some windowsClient \<and>
      lastScreenshot windowsClient = None \<longrightarrow>
        snd (on_watch_pc st sock cid) = [])"
  using assms by (simp add: on_watch_pc_def Let_def map_get_map_set_same)

theorem watch_pc_replays_cached_screenshot_witness:
  "map_get (webClients
      (run initial_state
        [Client_type ''s1'' (String ''windows'') (String ''pc-1'') Undefined 1,
         Screen_update ''s1'' (String ''S1'') (Number 100),
         Client_type ''w1'' (String ''web'') Undefined Undefined 2])) ''w1'' =
     Some \<lparr> WebClient.socketId = ''w1'', socket = ''w1'', watchingClientId = Null \<rparr> \<and>
   map_get (windowsClients
      (run initial_state
        [Client_type ''s1'' (String ''windows'') (String ''pc-1'') Undefined 1,
         Screen_update ''s1'' (String ''S1'') (Number 100),
         Client_type ''w1'' (String ''web'') Undefined Undefined 2])) (String ''pc-1'') =
     Some \<lparr> WindowsClient.socketId = ''s1'', clientId = String ''pc-1'', socket = ''s1'',
            lastScreenshot =
              Some \<lparr> ScreenshotData.image = String ''S1'', timestamp = Number 100,
                     clientId = String ''pc-1'' \<rparr>,
            connectedAt = 1, hostname = String ''Unknown PC'' \<rparr> \<and>
   snd (on_watch_pc
      (run initial_state
        [Client_type ''s1'' (String ''windows'') (String ''pc-1'') Undefined 1,
         Screen_update ''s1'' (String ''S1'') (Number 100),
         Client_type ''w1'' (String ''web'') Undefined Undefined 2])
      ''w1'' (String ''pc-1'')) =
     [(''w1'', screen_update
         \<lparr> ScreenshotData.image = String ''S1'', timestamp = Number 100,
           clientId = String ''pc-1'' \<rparr>)] \<and>
   map_get (windowsClients
      (run initial_state
        [Client_type ''s1'' (String ''windows'') (String ''pc-1'') Undefined 1,
         Screen_update ''s1'' (String ''S1'') (Number 100),
         Client_type ''w1'' (String ''web'') Undefined Undefined 2])) (String ''pc-9'') = None \<and>
   snd (on_watch_pc
      (run initial_state
        [Client_type ''s1'' (String ''windows'') (String ''pc-1'') Undefined 1,
         Screen_update ''s1'' (String ''S1'') (Number 100),
         Client_type ''w1'' (String ''web'') Undefined Undefined 2])
      ''w1'' (String ''pc-9'')) = []"
proof -
  let ?st = "run initial_state
        [Client_type ''s1'' (String ''windows'') (String ''pc-1'') Undefined 1,
         Screen_update ''s1'' (String ''S1'') (Number 100),
         Client_type ''w1'' (String ''web'') Undefined Undefined 2]"
  let ?shot = "\<lparr> ScreenshotData.image = String ''S1'', timestamp = Number 100,
                 clientId = String ''pc-1'' \<rparr>"
  let ?c = "\<lparr> WindowsClient.socketId = ''s1'', clientId = String ''pc-1'', socket = ''s1'',
              lastScreenshot = Some ?shot, connectedAt = 1, hostname = String ''Unknown PC'' \<rparr>"
  let ?w = "\<lparr> WebClient.socketId = ''w1'', socket = ''w1'', watchingClientId = Null \<rparr>"
  have s: "?st = \<lparr> windowsClients = [(String ''pc-1'', ?c)], webClients = [(''w1'', ?w)] \<rparr>"
    by (simp add: on_client_type_def on_screen_update_def initial_state_def strict_equals_def
        or_else_def Let_def)
  have h: "map_get (webClients ?st) ''w1'' = Some ?w"
    unfolding s by simp
  have g1: "map_get (windowsClients ?st) (String ''pc-1'') = Some ?c"
    unfolding s by simp
  have g9: "map_get (windowsClients ?st) (String ''pc-9'') = None"
    unfolding s by simp
  have l: "lastScreenshot ?c = Some ?shot" by simp
  note a = watch_pc_replays_cached_screenshot [OF h, of "String ''pc-1''" ?c ?shot]
  note b = watch_pc_replays_cached_screenshot [OF h, of "String ''pc-9''"]
  from a g1 l have r1:
    "snd (on_watch_pc ?st ''w1'' (String ''pc-1'')) = [(''w1'', screen_update ?shot)]"
    by blast
  from b g9 have r2: "snd (on_watch_pc ?st ''w1'' (String ''pc-9'')) = []"
    by blast
  from h g1 r1 g9 r2 show ?thesis by blast
qed

section \<open>Producer entries left behind by a disconnect\<close>

text \<open>
  C9 fails on the code. A connection \<open>s1\<close> that declares itself a producer twice, under
  the ids \<open>a\<close> and \<open>b\<close>, owns two entries of \<^verbatim>\<open>windowsClients\<close>; its disconnect removes
  the first one only, because the loop leaves at the first match, and the entry \<open>b\<close>
  stays listed with the socket id of the closed connection.
\<close>

theorem disconnect_leaves_second_registration:
  "map (\<lambda>(k, c). (k, WindowsClient.socketId c))
     (windowsClients
        (run initial_state
           [Client_type ''s1'' (String ''windows'') (String ''a'') Undefined 1,
            Client_type ''s1'' (String ''windows'') (String ''b'') Undefined 2]))
     = [(String ''a'', ''s1''), (String ''b'', ''s1'')] \<and>
   map (\<lambda>(k, c). (k, WindowsClient.socketId c))
     (windowsClients
        (run initial_state
           [Client_type ''s1'' (String ''windows'') (String ''a'') Undefined 1,
            Client_type ''s1'' (String ''windows'') (String ''b'') Undefined 2,
            Disconnect ''s1'']))
     = [(String ''b'', ''s1'')] \<and>
   listAll_ids
     (run initial_state
        [Client_type ''s1'' (String ''windows'') (String ''a'') Undefined 1,
         Client_type ''s1'' (String ''windows'') (String ''b'') Undefined 2,
         Disconnect ''s1'']) = [String ''b'']"
  by (simp add: on_client_type_def on_disconnect_def initial_state_def strict_equals_def
      or_else_def Let_def map_has_def listAll_ids_def get_connected_pcs_def map_values_def
      connected_pc_def)

section \<open>The registry entries behind the map\<close>

lemma entry_of_pair:
  "entry_of (k, c) =
     \<lparr> producerId = k, connectionId = WindowsClient.socketId c,
       displayName = WindowsClient.hostname c, connectedAt = WindowsClient.connectedAt c,
       hasSnapshot = (lastScreenshot c \<noteq> None) \<rparr>"
  by (simp add: entry_of_def)

lemma producerId_entry_of: "map producerId (map entry_of m) = map_keys m"
  by (induction m) (auto simp: entry_of_def map_keys_def)

lemma connectionId_entry_of:
  "map connectionId (map entry_of m) = map WindowsClient.socketId (map_values m)"
  by (induction m) (auto simp: entry_of_def map_values_def)

lemma replace_absent_id:
  "pid \<notin> set (map producerId reg) \<Longrightarrow>
   map (\<lambda>e. if producerId e = pid then entry else e) reg = reg"
  by (induction reg) auto

lemma spec_Register_Cons_same:
  assumes "producerId x = pid" and "pid \<notin> set (map producerId reg)"
  shows "spec_Register pid conn name now (x # reg) =
     \<lparr> producerId = pid, connectionId = conn, displayName = name,
       connectedAt = now, hasSnapshot = False \<rparr> # reg"
proof -
  from assms show ?thesis
    by (simp add: spec_Register_def Let_def replace_absent_id)
qed

lemma spec_Register_Cons_other:
  "producerId x \<noteq> pid \<Longrightarrow>
   spec_Register pid conn name now (x # reg) = x # spec_Register pid conn name now reg"
  by (simp add: spec_Register_def Let_def)

lemma spec_UnregisterByConnection_absent:
  "conn \<notin> set (map connectionId reg) \<Longrightarrow> spec_UnregisterByConnection conn reg = reg"
  by (induction reg) (auto simp: spec_UnregisterByConnection_def)

lemma spec_UnregisterByConnection_Cons:
  "spec_UnregisterByConnection conn (x # reg) =
     (if connectionId x = conn then spec_UnregisterByConnection conn reg
      else x # spec_UnregisterByConnection conn reg)"
  by (simp add: spec_UnregisterByConnection_def)

lemma spec_UpdateSnapshot_absent:
  "conn \<notin> set (map connectionId reg) \<Longrightarrow> spec_UpdateSnapshot conn reg = reg"
  by (induction reg) (auto simp: spec_UpdateSnapshot_def)

lemma spec_UpdateSnapshot_Cons:
  "spec_UpdateSnapshot conn (x # reg) =
     (if connectionId x = conn then x\<lparr>hasSnapshot := True\<rparr> else x) #
     spec_UpdateSnapshot conn reg"
  by (simp add: spec_UpdateSnapshot_def)

lemma entry_of_map_set:
  assumes "distinct (map_keys m)"
  shows "map entry_of
           (map_set key
              \<lparr> WindowsClient.socketId = sock, clientId = key, socket = sock,
                lastScreenshot = None, connectedAt = now, hostname = name \<rparr> m) =
         spec_Register key sock name now (map entry_of m)"
  using assms
proof (induction m)
  case Nil
  show ?case by (simp add: spec_Register_def entry_of_pair)
next
  case (Cons e m)
  let ?wc = "\<lparr> WindowsClient.socketId = sock, clientId = key, socket = sock,
                lastScreenshot = None, connectedAt = now, hostname = name \<rparr>"
  let ?entry = "\<lparr> producerId = key, connectionId = sock, displayName = name,
       connectedAt = now, hasSnapshot = False \<rparr>"
  obtain k c where e: "e = (k, c)" by (cases e)
  from Cons.prems have d: "distinct (map_keys m)" and n: "k \<notin> set (map_keys m)"
    by (simp_all add: e map_keys_def)
  have pk: "producerId (entry_of (k, c)) = k" by (simp add: entry_of_pair)
  have ew: "entry_of (key, ?wc) = ?entry" by (simp add: entry_of_pair)
  show ?case
  proof (cases "k = key")
    case True
    from n True have a: "key \<notin> set (map producerId (map entry_of m))"
      unfolding producerId_entry_of by simp
    from pk True have pk': "producerId (entry_of (k, c)) = key" by simp
    have "map entry_of (map_set key ?wc (e # m)) = entry_of (key, ?wc) # map entry_of m"
      using True by (simp add: e)
    also have "\<dots> = ?entry # map entry_of m" by (simp only: ew)
    also have "\<dots> = spec_Register key sock name now (entry_of (k, c) # map entry_of m)"
      by (rule spec_Register_Cons_same [OF pk' a, symmetric])
    finally show ?thesis by (simp add: e)
  next
    case False
    with pk have pk': "producerId (entry_of (k, c)) \<noteq> key" by simp
    have "map entry_of (map_set key ?wc (e # m)) =
        entry_of (k, c) # map entry_of (map_set key ?wc m)"
      using False by (simp add: e)
    also have "\<dots> = entry_of (k, c) # spec_Register key sock name now (map entry_of m)"
      by (simp only: Cons.IH [OF d])
    also have "\<dots> = spec_Register key sock name now (entry_of (k, c) # map entry_of m)"
      by (rule spec_Register_Cons_other [OF pk', symmetric])
    finally show ?thesis by (simp add: e)
  qed
qed

lemma find_by_socket_key_mem:
  "find_by_socket sock m = Some e \<Longrightarrow> fst e \<in> set (map_keys m)"
  using find_by_socket_Some_mem [of sock m e] by (force simp: map_keys_def)

lemma entry_of_disconnect:
  assumes "distinct (map_keys m)" and "distinct (map WindowsClient.socketId (map_values m))"
  shows "map entry_of
           (case find_by_socket sock m of None \<Rightarrow> m | Some e \<Rightarrow> map_delete (fst e) m) =
         spec_UnregisterByConnection sock (map entry_of m)"
  using assms
proof (induction m)
  case Nil
  show ?case by (simp add: spec_UnregisterByConnection_def)
next
  case (Cons e m)
  obtain k c where e: "e = (k, c)" by (cases e)
  from Cons.prems have d: "distinct (map_keys m)" and n: "k \<notin> set (map_keys m)"
    and ds: "distinct (map WindowsClient.socketId (map_values m))"
    and ns: "WindowsClient.socketId c \<notin> set (map WindowsClient.socketId (map_values m))"
    by (simp_all add: e map_keys_def map_values_def)
  have ck: "connectionId (entry_of (k, c)) = WindowsClient.socketId c"
    by (simp add: entry_of_pair)
  have rhs: "spec_UnregisterByConnection sock (map entry_of (e # m)) =
      (if WindowsClient.socketId c = sock then spec_UnregisterByConnection sock (map entry_of m)
       else entry_of (k, c) # spec_UnregisterByConnection sock (map entry_of m))"
    by (simp only: e list.map spec_UnregisterByConnection_Cons ck)
  show ?case
  proof (cases "WindowsClient.socketId c = sock")
    case True
    from ns True have "sock \<notin> set (map connectionId (map entry_of m))"
      unfolding connectionId_entry_of by simp
    then have "spec_UnregisterByConnection sock (map entry_of m) = map entry_of m"
      by (rule spec_UnregisterByConnection_absent)
    with True have "spec_UnregisterByConnection sock (map entry_of (e # m)) = map entry_of m"
      unfolding rhs by simp
    moreover have "(case find_by_socket sock (e # m) of None \<Rightarrow> e # m
        | Some f \<Rightarrow> map_delete (fst f) (e # m)) = m"
      using True by (simp add: e)
    ultimately show ?thesis by simp
  next
    case False
    note ih = Cons.IH [OF d ds]
    from False have r: "spec_UnregisterByConnection sock (map entry_of (e # m)) =
        entry_of (k, c) # spec_UnregisterByConnection sock (map entry_of m)"
      unfolding rhs by simp
    show ?thesis
    proof (cases "find_by_socket sock m")
      case None
      with False have "(case find_by_socket sock (e # m) of None \<Rightarrow> e # m
          | Some f \<Rightarrow> map_delete (fst f) (e # m)) = e # m"
        by (simp add: e)
      moreover from None ih have "map entry_of m = spec_UnregisterByConnection sock (map entry_of m)"
        by simp
      ultimately show ?thesis unfolding r by (simp add: e)
    next
      case (Some f)
      then have "fst f \<in> set (map_keys m)" by (rule find_by_socket_key_mem)
      with n have kf: "k \<noteq> fst f" by auto
      from False Some kf have "(case find_by_socket sock (e # m) of None \<Rightarrow> e # m
          | Some f \<Rightarrow> map_delete (fst f) (e # m)) = (k, c) # map_delete (fst f) m"
        by (simp add: e)
      moreover from Some ih have "map entry_of (map_delete (fst f) m) =
          spec_UnregisterByConnection sock (map entry_of m)"
        by simp
      ultimately show ?thesis unfolding r by simp
    qed
  qed
qed

lemma entry_of_store_screenshot:
  assumes "distinct (map WindowsClient.socketId (map_values m))"
  shows "map entry_of (store_screenshot sock shot m) = spec_UpdateSnapshot sock (map entry_of m)"
  using assms
proof (induction m)
  case Nil
  show ?case by (simp add: spec_UpdateSnapshot_def)
next
  case (Cons e m)
  obtain k c where e: "e = (k, c)" by (cases e)
  from Cons.prems have ds: "distinct (map WindowsClient.socketId (map_values m))"
    and ns: "WindowsClient.socketId c \<notin> set (map WindowsClient.socketId (map_values m))"
    by (simp_all add: e map_values_def)
  have ck: "connectionId (entry_of (k, c)) = WindowsClient.socketId c"
    by (simp add: entry_of_pair)
  have rhs: "spec_UpdateSnapshot sock (map entry_of (e # m)) =
      (if WindowsClient.socketId c = sock then (entry_of (k, c))\<lparr>hasSnapshot := True\<rparr>
       else entry_of (k, c)) # spec_UpdateSnapshot sock (map entry_of m)"
    by (simp only: e list.map spec_UpdateSnapshot_Cons ck)
  show ?case
  proof (cases "WindowsClient.socketId c = sock")
    case True
    from ns True have "sock \<notin> set (map connectionId (map entry_of m))"
      unfolding connectionId_entry_of by simp
    then have "spec_UpdateSnapshot sock (map entry_of m) = map entry_of m"
      by (rule spec_UpdateSnapshot_absent)
    with True have "spec_UpdateSnapshot sock (map entry_of (e # m)) =
        (entry_of (k, c))\<lparr>hasSnapshot := True\<rparr> # map entry_of m"
      unfolding rhs by simp
    moreover have "(entry_of (k, c))\<lparr>hasSnapshot := True\<rparr> =
        entry_of (k, c\<lparr>lastScreenshot := Some shot\<rparr>)"
      by (simp add: entry_of_pair)
    moreover have "store_screenshot sock shot (e # m) = (k, c\<lparr>lastScreenshot := Some shot\<rparr>) # m"
      using True by (simp add: e)
    ultimately show ?thesis by simp
  next
    case False
    then have "store_screenshot sock shot (e # m) = (k, c) # store_screenshot sock shot m"
      by (simp add: e)
    moreover from False have "spec_UpdateSnapshot sock (map entry_of (e # m)) =
        entry_of (k, c) # spec_UpdateSnapshot sock (map entry_of m)"
      unfolding rhs by simp
    ultimately show ?thesis using Cons.IH [OF ds] by simp
  qed
qed

lemma store_screenshot_not_found:
  "find_by_socket sock m = None \<Longrightarrow> store_screenshot sock shot m = m"
  by (induction m) (auto split: if_splits)

lemma windows_after_screen_update:
  "\<exists>shot. windowsClients (fst (on_screen_update st sock img ts)) =
           store_screenshot sock shot (windowsClients st)"
  by (cases "find_by_socket sock (windowsClients st)")
    (auto simp: on_screen_update_def Let_def store_screenshot_not_found)

lemma windows_after_disconnect:
  "windowsClients (fst (on_disconnect st sock)) =
     (case find_by_socket sock (windowsClients st) of
        None \<Rightarrow> windowsClients st
      | Some e \<Rightarrow> map_delete (fst e) (windowsClients st))"
  by (simp add: on_disconnect_def Let_def split: option.splits prod.splits)

lemma windows_after_client_type_windows:
  "windowsClients (fst (on_client_type st sock (String ''windows'') cid hn now)) =
     map_set (if truthy cid then cid else String sock)
       \<lparr> WindowsClient.socketId = sock, clientId = (if truthy cid then cid else String sock),
         socket = sock, lastScreenshot = None, connectedAt = now,
         hostname = (if truthy hn then hn else String ''Unknown PC'') \<rparr>
       (windowsClients st)"
  by (simp add: on_client_type_def strict_equals_def or_else_def Let_def)

lemma windows_after_client_type_other:
  "ty \<noteq> String ''windows'' \<Longrightarrow>
   windowsClients (fst (on_client_type st sock ty cid hn now)) = windowsClients st"
  by (simp add: on_client_type_def strict_equals_def Let_def)

lemma windows_after_watch_pc: "windowsClients (fst (on_watch_pc st sock cid)) = windowsClients st"
  by (simp add: on_watch_pc_def Let_def split: option.splits)

lemma windows_after_unwatch_pc: "windowsClients (fst (on_unwatch_pc st sock)) = windowsClients st"
  by (simp add: on_unwatch_pc_def split: option.splits)

lemma handle_refines_spec_step:
  assumes "well_formed st"
    and "distinct (map connectionId (map entry_of (windowsClients st)))"
  shows "map entry_of (windowsClients (fst (handle st i))) =
         spec_step (map entry_of (windowsClients st)) i"
proof -
  from assms(1) have d: "distinct (map_keys (windowsClients st))"
    by (simp add: well_formed_def)
  from assms(2) have ds: "distinct (map WindowsClient.socketId (map_values (windowsClients st)))"
    unfolding connectionId_entry_of .
  show ?thesis
  proof (cases i)
    case (Client_type sock ty cid hn now)
    show ?thesis
    proof (cases "ty = String ''windows''")
      case True
      then show ?thesis
        unfolding Client_type
        by (simp add: windows_after_client_type_windows entry_of_map_set [OF d])
    next
      case False
      then show ?thesis
        unfolding Client_type by (simp add: windows_after_client_type_other)
    qed
  next
    case (Watch_pc sock cid)
    then show ?thesis by (simp add: windows_after_watch_pc)
  next
    case (Unwatch_pc sock)
    then show ?thesis by (simp add: windows_after_unwatch_pc)
  next
    case (Screen_update sock img ts)
    from windows_after_screen_update [of st sock img ts] obtain shot where
      "windowsClients (fst (on_screen_update st sock img ts)) =
         store_screenshot sock shot (windowsClients st)" ..
    then show ?thesis
      unfolding Screen_update by (simp add: entry_of_store_screenshot [OF ds])
  next
    case (Disconnect sock)
    then show ?thesis
      by (simp add: windows_after_disconnect entry_of_disconnect [OF d ds])
  qed
qed

lemma run_refines_spec_registry:
  assumes "well_formed st"
    and "one_entry_per_connection (map entry_of (windowsClients st)) is"
  shows "map entry_of (windowsClients (run st is)) =
         spec_registry (map entry_of (windowsClients st)) is"
  using assms
proof (induction "is" arbitrary: st)
  case Nil
  show ?case by simp
next
  case (Cons i "is")
  let ?st' = "fst (handle st i)"
  from Cons.prems(2) have d: "distinct (map connectionId (map entry_of (windowsClients st)))"
    and rest: "one_entry_per_connection (spec_step (map entry_of (windowsClients st)) i) is"
    by simp_all
  note step = handle_refines_spec_step [OF Cons.prems(1) d, of i]
  from Cons.prems(1) have wf': "well_formed ?st'" by (rule well_formed_handle)
  from rest have rest': "one_entry_per_connection (map entry_of (windowsClients ?st')) is"
    unfolding step .
  from Cons.IH [OF wf' rest'] show ?case
    unfolding step by simp
qed

section \<open>The listing is the projection of the registry entries\<close>

lemma truthy_hostname_store_screenshot:
  "list_all (\<lambda>e. truthy (WindowsClient.hostname (snd e))) m \<Longrightarrow>
   list_all (\<lambda>e. truthy (WindowsClient.hostname (snd e))) (store_screenshot sock shot m)"
  by (induction m) auto

lemma truthy_hostname_handle:
  assumes "list_all (\<lambda>e. truthy (WindowsClient.hostname (snd e))) (windowsClients st)"
  shows "list_all (\<lambda>e. truthy (WindowsClient.hostname (snd e)))
           (windowsClients (fst (handle st i)))"
proof (cases i)
  case (Client_type sock ty cid hn now)
  show ?thesis
  proof (cases "ty = String ''windows''")
    case True
    with assms show ?thesis
      unfolding Client_type
      by (simp add: windows_after_client_type_windows list_all_map_set)
  next
    case False
    with assms show ?thesis
      unfolding Client_type by (simp add: windows_after_client_type_other)
  qed
next
  case (Watch_pc sock cid)
  with assms show ?thesis by (simp add: windows_after_watch_pc)
next
  case (Unwatch_pc sock)
  with assms show ?thesis by (simp add: windows_after_unwatch_pc)
next
  case (Screen_update sock img ts)
  from windows_after_screen_update [of st sock img ts] obtain shot where
    "windowsClients (fst (on_screen_update st sock img ts)) =
       store_screenshot sock shot (windowsClients st)" ..
  with assms show ?thesis
    unfolding Screen_update by (simp add: truthy_hostname_store_screenshot)
next
  case (Disconnect sock)
  with assms show ?thesis
    by (simp add: windows_after_disconnect list_all_map_delete split: option.splits)
qed

lemma reachable_truthy_hostname:
  "reachable st \<Longrightarrow> list_all (\<lambda>e. truthy (WindowsClient.hostname (snd e))) (windowsClients st)"
  by (induction rule: reachable.induct) (simp_all add: initial_state_def truthy_hostname_handle)

lemma pc_list_is_projection:
  "list_all windows_entry_ok m \<Longrightarrow>
   map pc_list_item (map_values m) = spec_ListAll (map entry_of m)"
  by (induction m)
    (auto simp: map_values_def pc_list_item_def spec_ListAll_def entry_of_pair
      windows_entry_ok_def)

lemma connected_pcs_is_projection:
  "list_all windows_entry_ok m \<Longrightarrow>
   list_all (\<lambda>e. truthy (WindowsClient.hostname (snd e))) m \<Longrightarrow>
   map connected_pc (map_values m) = spec_ListAll_with_connection (map entry_of m)"
  by (induction m)
    (auto simp: map_values_def connected_pc_def spec_ListAll_with_connection_def entry_of_pair
      windows_entry_ok_def or_else_def)

text \<open>
  C7, as stated, fails in two ways. The items of \<^verbatim>\<open>GET /connected-pcs\<close> are not the
  projection onto producer id, display name, connection time and snapshot flag: they
  carry the socket id as well, so two registries with the same such projection are
  listed differently. And after a connection that declared itself a producer twice has
  disconnected, the listing still shows its second entry, which the registry of the
  specification no longer holds.
\<close>

theorem listAll_not_the_claimed_projection:
  "broadcastPCList
     (run initial_state
        [Client_type ''s1'' (String ''windows'') (String ''pc-1'') (String ''Alpha'') 1,
         Client_type ''w1'' (String ''web'') Undefined Undefined 2]) =
   broadcastPCList
     (run initial_state
        [Client_type ''s2'' (String ''windows'') (String ''pc-1'') (String ''Alpha'') 1,
         Client_type ''w1'' (String ''web'') Undefined Undefined 2]) \<and>
   get_connected_pcs
     (run initial_state
        [Client_type ''s1'' (String ''windows'') (String ''pc-1'') (String ''Alpha'') 1,
         Client_type ''w1'' (String ''web'') Undefined Undefined 2]) =
     ConnectedPcsOk
       [\<lparr> ConnectedPc.clientId = String ''pc-1'', socketId = ''s1'', hostname = String ''Alpha'',
          connectedAt = 1, hasScreenshot = False \<rparr>] 1 \<and>
   get_connected_pcs
     (run initial_state
        [Client_type ''s2'' (String ''windows'') (String ''pc-1'') (String ''Alpha'') 1,
         Client_type ''w1'' (String ''web'') Undefined Undefined 2]) =
     ConnectedPcsOk
       [\<lparr> ConnectedPc.clientId = String ''pc-1'', socketId = ''s2'', hostname = String ''Alpha'',
          connectedAt = 1, hasScreenshot = False \<rparr>] 1 \<and>
   spec_registry []
     [Client_type ''s1'' (String ''windows'') (String ''a'') Undefined 1,
      Client_type ''s1'' (String ''windows'') (String ''b'') Undefined 2,
      Disconnect ''s1''] = [] \<and>
   get_connected_pcs
     (run initial_state
        [Client_type ''s1'' (String ''windows'') (String ''a'') Undefined 1,
         Client_type ''s1'' (String ''windows'') (String ''b'') Undefined 2,
         Disconnect ''s1'']) =
     ConnectedPcsOk
       [\<lparr> ConnectedPc.clientId = String ''b'', socketId = ''s1'',
          hostname = String ''Unknown PC'', connectedAt = 2, hasScreenshot = False \<rparr>] 1"
  by (simp add: on_client_type_def on_disconnect_def initial_state_def strict_equals_def
      or_else_def Let_def map_has_def get_connected_pcs_def map_values_def connected_pc_def
      broadcastPCList_def pc_list_item_def spec_Register_def spec_UnregisterByConnection_def)

text \<open>
  C7, amended: take any finite sequence of events during which no connection comes to
  hold more than one entry of the registry. Then \<^verbatim>\<open>GET /connected-pcs\<close> answers with
  exactly the entries that the registry of the specification holds after the same events,
  where a
  role declaration is \<open>Register\<close> (insert after the entries present, or replace in place),
  a disconnect is \<open>UnregisterByConnection\<close> and a snapshot push is \<open>UpdateSnapshot\<close>: no
  id twice, in insertion order, each entry as its id, its connection id, its display
  name, its connection time and the flag whether it holds a snapshot. The payload of
  \<^verbatim>\<open>broadcastPCList\<close> is the same list without the connection ids. Neither carries the
  snapshot.
\<close>

theorem listAll_is_projection_of_registry:
  assumes "one_entry_per_connection [] is"
  shows
    "get_connected_pcs (run initial_state is) =
       ConnectedPcsOk (spec_ListAll_with_connection (spec_registry [] is))
         (length (spec_registry [] is)) \<and>
     broadcastPCList (run initial_state is) =
       map (\<lambda>webClient. (WebClient.socket webClient,
                          pc_list_update (spec_ListAll (spec_registry [] is))))
         (map_values (webClients (run initial_state is))) \<and>
     distinct (map producerId (spec_registry [] is))"
proof -
  let ?st = "run initial_state is"
  have r: "reachable ?st" by (rule reachable_run [OF reachable_initial])
  then have wf: "well_formed ?st" by (rule reachable_well_formed)
  then have ok: "list_all windows_entry_ok (windowsClients ?st)"
    and d: "distinct (map_keys (windowsClients ?st))"
    by (simp_all add: well_formed_def)
  note th = reachable_truthy_hostname [OF r]
  have "map entry_of (windowsClients ?st) =
      spec_registry (map entry_of (windowsClients initial_state)) is"
    by (rule run_refines_spec_registry [OF well_formed_initial])
      (simp add: initial_state_def assms)
  then have reg: "map entry_of (windowsClients ?st) = spec_registry [] is"
    by (simp add: initial_state_def)
  have len: "length (map_values (windowsClients ?st)) = length (spec_registry [] is)"
    unfolding reg [symmetric] by (simp add: map_values_def)
  have a: "get_connected_pcs ?st =
       ConnectedPcsOk (spec_ListAll_with_connection (spec_registry [] is))
         (length (spec_registry [] is))"
    unfolding get_connected_pcs_def Let_def connected_pcs_is_projection [OF ok th] reg
    using len by (simp add: spec_ListAll_with_connection_def map_values_def)
  have b: "broadcastPCList ?st =
       map (\<lambda>webClient. (WebClient.socket webClient,
                          pc_list_update (spec_ListAll (spec_registry [] is))))
         (map_values (webClients ?st))"
    unfolding broadcastPCList_def Let_def pc_list_is_projection [OF ok] reg ..
  from d have c: "distinct (map producerId (spec_registry [] is))"
    unfolding reg [symmetric] producerId_entry_of .
  from a b c show ?thesis by blast
qed

theorem listAll_is_projection_of_registry_witness:
  "one_entry_per_connection []
     [Client_type ''s1'' (String ''windows'') (String ''pc-1'') (String ''Alpha'') 1,
      Client_type ''s2'' (String ''windows'') Undefined Undefined 2,
      Screen_update ''s2'' (String ''S1'') (Number 100),
      Client_type ''s3'' (String ''windows'') (String ''pc-1'') (String ''Gamma'') 3,
      Client_type ''w1'' (String ''web'') Undefined Undefined 4,
      Disconnect ''s2'',
      Client_type ''s4'' (String ''windows'') (String ''pc-4'') (String ''Delta'') 5,
      Client_type ''s4'' (String ''windows'') (String ''pc-4'') (String ''Delta'') 6,
      Screen_update ''s4'' (String ''S2'') (Number 200)] \<and>
   get_connected_pcs
     (run initial_state
        [Client_type ''s1'' (String ''windows'') (String ''pc-1'') (String ''Alpha'') 1,
         Client_type ''s2'' (String ''windows'') Undefined Undefined 2,
         Screen_update ''s2'' (String ''S1'') (Number 100),
         Client_type ''s3'' (String ''windows'') (String ''pc-1'') (String ''Gamma'') 3,
         Client_type ''w1'' (String ''web'') Undefined Undefined 4,
         Disconnect ''s2'',
         Client_type ''s4'' (String ''windows'') (String ''pc-4'') (String ''Delta'') 5,
         Client_type ''s4'' (String ''windows'') (String ''pc-4'') (String ''Delta'') 6,
         Screen_update ''s4'' (String ''S2'') (Number 200)]) =
     ConnectedPcsOk
       [\<lparr> ConnectedPc.clientId = String ''pc-1'', socketId = ''s3'', hostname = String ''Gamma'',
          connectedAt = 3, hasScreenshot = False \<rparr>,
        \<lparr> ConnectedPc.clientId = String ''pc-4'', socketId = ''s4'', hostname = String ''Delta'',
          connectedAt = 6, hasScreenshot = True \<rparr>] 2"
proof -
  let ?is = "[Client_type ''s1'' (String ''windows'') (String ''pc-1'') (String ''Alpha'') 1,
      Client_type ''s2'' (String ''windows'') Undefined Undefined 2,
      Screen_update ''s2'' (String ''S1'') (Number 100),
      Client_type ''s3'' (String ''windows'') (String ''pc-1'') (String ''Gamma'') 3,
      Client_type ''w1'' (String ''web'') Undefined Undefined 4,
      Disconnect ''s2'',
      Client_type ''s4'' (String ''windows'') (String ''pc-4'') (String ''Delta'') 5,
      Client_type ''s4'' (String ''windows'') (String ''pc-4'') (String ''Delta'') 6,
      Screen_update ''s4'' (String ''S2'') (Number 200)]"
  have h: "one_entry_per_connection [] ?is"
    by (simp add: spec_Register_def spec_UnregisterByConnection_def spec_UpdateSnapshot_def)
  have reg: "spec_registry [] ?is =
      [\<lparr> producerId = String ''pc-1'', connectionId = ''s3'', displayName = String ''Gamma'',
         connectedAt = 3, hasSnapshot = False \<rparr>,
       \<lparr> producerId = String ''pc-4'', connectionId = ''s4'', displayName = String ''Delta'',
         connectedAt = 6, hasSnapshot = True \<rparr>]"
    by (simp add: spec_Register_def spec_UnregisterByConnection_def spec_UpdateSnapshot_def)
  from listAll_is_projection_of_registry [OF h]
  have "get_connected_pcs (run initial_state ?is) =
       ConnectedPcsOk (spec_ListAll_with_connection (spec_registry [] ?is))
         (length (spec_registry [] ?is))"
    by blast
  then have "get_connected_pcs (run initial_state ?is) =
     ConnectedPcsOk
       [\<lparr> ConnectedPc.clientId = String ''pc-1'', socketId = ''s3'', hostname = String ''Gamma'',
          connectedAt = 3, hasScreenshot = False \<rparr>,
        \<lparr> ConnectedPc.clientId = String ''pc-4'', socketId = ''s4'', hostname = String ''Delta'',
          connectedAt = 6, hasScreenshot = True \<rparr>] 2"
    unfolding reg by (simp add: spec_ListAll_with_connection_def)
  with h show ?thesis by blast
qed

section \<open>What a second registration of one connection does to the other handlers\<close>

text \<open>
  C3 fails on the code, by the defect shown for C9. Connection \<open>s1\<close> is registered as
  producer \<open>a\<close> and as producer \<open>b\<close>, and consumer \<open>w1\<close> watches \<open>b\<close>. A snapshot pushed by
  \<open>s1\<close> is attributed to the first entry the search finds, \<open>a\<close>, and no one receives it:
  the consumer watching producer \<open>b\<close> is left out.
\<close>

theorem screen_update_misses_watcher_of_second_registration:
  "map (\<lambda>(k, c). (k, WindowsClient.socketId c))
     (windowsClients
        (run initial_state
           [Client_type ''s1'' (String ''windows'') (String ''a'') Undefined 1,
            Client_type ''s1'' (String ''windows'') (String ''b'') Undefined 2,
            Client_type ''w1'' (String ''web'') Undefined Undefined 3,
            Watch_pc ''w1'' (String ''b'')]))
     = [(String ''a'', ''s1''), (String ''b'', ''s1'')] \<and>
   map (\<lambda>(k, w). (k, watchingClientId w))
     (webClients
        (run initial_state
           [Client_type ''s1'' (String ''windows'') (String ''a'') Undefined 1,
            Client_type ''s1'' (String ''windows'') (String ''b'') Undefined 2,
            Client_type ''w1'' (String ''web'') Undefined Undefined 3,
            Watch_pc ''w1'' (String ''b'')]))
     = [(''w1'', String ''b'')] \<and>
   snd (on_screen_update
          (run initial_state
             [Client_type ''s1'' (String ''windows'') (String ''a'') Undefined 1,
              Client_type ''s1'' (String ''windows'') (String ''b'') Undefined 2,
              Client_type ''w1'' (String ''web'') Undefined Undefined 3,
              Watch_pc ''w1'' (String ''b'')])
          ''s1'' (String ''S1'') (Number 100)) = []"
  by (simp add: on_client_type_def on_watch_pc_def on_screen_update_def initial_state_def
      strict_equals_def or_else_def Let_def map_values_def)


text \<open>
  C6 fails on the code, by the defect shown for C9. With connection \<open>s1\<close> registered as
  producer \<open>a\<close> and as producer \<open>b\<close> and a consumer \<open>w1\<close> registered, the disconnect of \<open>s1\<close>
  broadcasts a producer list that still names \<open>b\<close>, and \<^verbatim>\<open>GET /connected-pcs\<close> goes on
  listing \<open>b\<close> under the socket id of the closed connection.
\<close>

theorem disconnect_broadcasts_second_registration:
  "snd (on_disconnect
          (run initial_state
             [Client_type ''s1'' (String ''windows'') (String ''a'') Undefined 1,
              Client_type ''s1'' (String ''windows'') (String ''b'') Undefined 2,
              Client_type ''w1'' (String ''web'') Undefined Undefined 3])
          ''s1'') =
     [(''w1'', pc_list_update
         [\<lparr> PcListItem.clientId = String ''b'', hostname = String ''Unknown PC'',
            connectedAt = 2, hasScreenshot = False \<rparr>])] \<and>
   get_connected_pcs
     (fst (on_disconnect
             (run initial_state
                [Client_type ''s1'' (String ''windows'') (String ''a'') Undefined 1,
                 Client_type ''s1'' (String ''windows'') (String ''b'') Undefined 2,
                 Client_type ''w1'' (String ''web'') Undefined Undefined 3])
             ''s1'')) =
     ConnectedPcsOk
       [\<lparr> ConnectedPc.clientId = String ''b'', socketId = ''s1'',
          hostname = String ''Unknown PC'', connectedAt = 2, hasScreenshot = False \<rparr>] 1"
  by (simp add: on_client_type_def on_disconnect_def initial_state_def strict_equals_def
      or_else_def Let_def map_has_def map_values_def broadcastPCList_def pc_list_item_def
      get_connected_pcs_def connected_pc_def)

end
